theory Spec2Isabelle
  imports Main "HOL-Library.Multiset"
begin

section \<open>Faculty dashboard: data model\<close>

text \<open>
  The component \<^verbatim>\<open>App\<close> of \<^verbatim>\<open>FacultyDashboard.jsx\<close> keeps its state in React hooks and
  talks to Firestore. The embedding makes the component state, the console, the errors
  that nobody catches and the remote collections one record; every handler of the source
  is a function from state to state. What the outside world answers (the current time,
  whether a library call throws, whether a remote call resolves or rejects, the id a new
  document gets, the value of \<^verbatim>\<open>crypto.randomUUID()\<close>) is an argument of the handler.

  A value that may be \<^verbatim>\<open>undefined\<close> or \<^verbatim>\<open>null\<close> in JavaScript is an option; form fields
  are always strings, since they are written from \<^verbatim>\<open>e.target.value\<close>.
\<close>

text \<open>
  A Firestore \<^verbatim>\<open>Timestamp\<close> has whole seconds, from 0001-01-01T00:00:00Z on, and
  nanoseconds below \<^verbatim>\<open>1e9\<close>. It is represented exactly, by its count of nanoseconds since
  0001-01-01T00:00:00Z, the instant from which \<^verbatim>\<open>Timestamp.valueOf\<close> counts its seconds.
\<close>

type_synonym timestamp = nat

text \<open>
  \<^verbatim>\<open>toDate()\<close> is a call into the library whose result only the view reads: \<^verbatim>\<open>Date t\<close>
  stands for the \<^verbatim>\<open>Date\<close> object that the timestamp \<^verbatim>\<open>t\<close> returns from it.
\<close>

datatype date = Date timestamp

fun toDate :: "timestamp \<Rightarrow> date" where
  "toDate t = Date t"

datatype 'a promise = Fulfilled 'a | Rejected string

datatype log_entry = ConsoleError string string

record profile =
  name :: "string option"
  facultyId :: "string option"
  email :: "string option"
  course :: "string option"
  lastLogin :: "timestamp option"

record assignment_form =
  na_title :: string
  na_description :: string
  na_dueDate :: string
  na_course :: "string option"

record schedule_form =
  ns_course :: "string option"
  ns_location :: string
  ns_time :: string
  ns_day :: string
  ns_instructor :: "string option"

text \<open>
  The data of a stored document: any field may be absent. \<^verbatim>\<open>ad_id\<close> and \<^verbatim>\<open>sd_id\<close> are a
  stored field that is itself named \<^verbatim>\<open>id\<close>; the component writes none.
\<close>

record assignment_data =
  ad_id :: "string option"
  ad_title :: "string option"
  ad_description :: "string option"
  ad_course :: "string option"
  ad_dueDate :: "timestamp option"
  ad_postedBy :: "string option"
  ad_postedAt :: "timestamp option"

record schedule_data =
  sd_id :: "string option"
  sd_course :: "string option"
  sd_location :: "string option"
  sd_time :: "string option"
  sd_day :: "string option"
  sd_instructor :: "string option"
  sd_postedAt :: "timestamp option"

text \<open>The local projections built by the two snapshot handlers.\<close>

record assignment =
  a_id :: string
  a_title :: "string option"
  a_description :: "string option"
  a_course :: "string option"
  a_dueDate :: "date option"
  a_postedBy :: "string option"
  a_postedAt :: "timestamp option"

record schedule_entry =
  se_id :: string
  se_course :: "string option"
  se_location :: "string option"
  se_time :: string
  se_day :: "string option"
  se_instructor :: "string option"
  se_postedAt :: "timestamp option"

record state =
  db :: bool
  auth :: bool
  userId :: "string option"
  isAuthReady :: bool
  loading :: bool
  assignments :: "assignment list"
  schedule :: "schedule_entry list"
  profile :: profile
  newAssignment :: assignment_form
  newSchedule :: schedule_form
  console :: "log_entry list"
  uncaught :: "string list"
  store_assignments :: "(string \<times> assignment_data) list"
  store_schedule :: "(string \<times> schedule_data) list"
  store_profiles :: "string \<Rightarrow> profile option"
  profile_sub :: "string option"
  content_sub :: "string option"
  profile_deps :: "bool \<times> string option \<times> bool"
  content_deps :: "bool \<times> bool \<times> string option"
  initializing :: "string list"

text \<open>
  \<^verbatim>\<open>db\<close> and \<^verbatim>\<open>auth\<close> say whether the handle is set (non-null). \<^verbatim>\<open>console\<close> holds the
  calls of \<^verbatim>\<open>console.error\<close>, \<^verbatim>\<open>uncaught\<close> the errors that leave a handler without
  being caught (an exception, or the rejection of a promise that nobody handles).
  \<^verbatim>\<open>store_assignments\<close>, \<^verbatim>\<open>store_schedule\<close> and \<^verbatim>\<open>store_profiles\<close> are the remote
  collections \<^verbatim>\<open>public/data/assignments\<close>, \<^verbatim>\<open>public/data/schedule\<close> and the profile
  document of each user id. \<^verbatim>\<open>profile_sub\<close> is the user id whose profile document is
  being listened to, \<^verbatim>\<open>content_sub\<close> the course the two content listeners filter on;
  \<^verbatim>\<open>None\<close> means that the listener is not open. \<^verbatim>\<open>profile_deps\<close> and \<^verbatim>\<open>content_deps\<close>
  are the dependencies with which the profile effect and the content effect last ran,
  \<^verbatim>\<open>initializing\<close> the user ids of the calls of \<^verbatim>\<open>initializeProfile\<close> that have been
  started and have not completed.
\<close>

definition truthy :: "string option \<Rightarrow> bool" where
  "truthy v = (case v of None \<Rightarrow> False | Some s \<Rightarrow> s \<noteq> [])"

definition initial_profile :: profile where
  "initial_profile =
     \<lparr>name = Some ''RBC Faculty'', facultyId = None, email = Some ''faculty@rbc.edu'',
      course = Some ''CS101'', lastLogin = None\<rparr>"

definition initial_state ::
  "(string \<times> assignment_data) list \<Rightarrow> (string \<times> schedule_data) list \<Rightarrow>
   (string \<Rightarrow> profile option) \<Rightarrow> state" where
  "initial_state sa ss sp =
     \<lparr>db = False, auth = False, userId = None, isAuthReady = False, loading = True,
      assignments = [], schedule = [], profile = initial_profile,
      newAssignment =
        \<lparr>na_title = [], na_description = [], na_dueDate = [], na_course = Some ''CS101''\<rparr>,
      newSchedule =
        \<lparr>ns_course = Some ''CS101'', ns_location = [], ns_time = [], ns_day = ''Monday'',
         ns_instructor = Some ''Dr. Smith''\<rparr>,
      console = [], uncaught = [],
      store_assignments = sa, store_schedule = ss, store_profiles = sp,
      profile_sub = None, content_sub = None,
      profile_deps = (False, None, False), content_deps = (False, False, Some ''CS101''),
      initializing = []\<rparr>"

section \<open>Mutation commands\<close>

text \<open>
  \<^verbatim>\<open>handlePostAssignment\<close> (lines 185 to 206). \<^verbatim>\<open>fromDate\<close> stands for
  \<^verbatim>\<open>Timestamp.fromDate(new Date(...))\<close> of line 193, which returns a timestamp or throws
  (the constructor of \<^verbatim>\<open>Timestamp\<close> refuses seconds out of its range, from the year 10000
  on). Line 193 is before the \<^verbatim>\<open>try\<close> of line 200, so the exception leaves the handler
  uncaught: no \<^verbatim>\<open>addDoc\<close>, no log, no reset. \<^verbatim>\<open>now\<close> stands for \<^verbatim>\<open>Timestamp.now()\<close>, and
  \<^verbatim>\<open>added\<close> is what \<^verbatim>\<open>await addDoc(...)\<close> does: it resolves with the id of the new
  document or rejects.
\<close>

definition handlePostAssignment ::
  "(string \<Rightarrow> string + timestamp) \<Rightarrow> timestamp \<Rightarrow> string promise \<Rightarrow> state \<Rightarrow> state" where
  "handlePostAssignment fromDate now added s =
     (if \<not> db s \<or> na_title (newAssignment s) = [] \<or> na_description (newAssignment s) = []
         \<or> na_dueDate (newAssignment s) = [] \<or> \<not> truthy (course (profile s))
      then s
      else
        case fromDate (na_dueDate (newAssignment s)) of
          Inl thrown \<Rightarrow> s\<lparr>uncaught := uncaught s @ [thrown]\<rparr>
        | Inr due \<Rightarrow>
            let assignmentData =
              \<lparr>ad_id = None,
               ad_title = Some (na_title (newAssignment s)),
               ad_description = Some (na_description (newAssignment s)),
               ad_course = course (profile s),
               ad_dueDate = Some due,
               ad_postedBy = name (profile s),
               ad_postedAt = Some now\<rparr>
            in case added of
                 Fulfilled newId \<Rightarrow>
                   s\<lparr>store_assignments := store_assignments s @ [(newId, assignmentData)],
                     newAssignment :=
                       \<lparr>na_title = [], na_description = [], na_dueDate = [],
                        na_course = course (profile s)\<rparr>\<rparr>
               | Rejected e \<Rightarrow>
                   s\<lparr>console := console s @ [ConsoleError ''Error posting assignment:'' e]\<rparr>)"

text \<open>
  \<^verbatim>\<open>handlePostSchedule\<close> (lines 208 to 229). Nothing is converted here: before the
  \<^verbatim>\<open>try\<close> there are only reads of the form and the profile and \<^verbatim>\<open>Timestamp.now()\<close>.
\<close>

definition handlePostSchedule :: "timestamp \<Rightarrow> string promise \<Rightarrow> state \<Rightarrow> state" where
  "handlePostSchedule now added s =
     (if \<not> db s \<or> ns_location (newSchedule s) = [] \<or> ns_time (newSchedule s) = []
         \<or> ns_day (newSchedule s) = [] \<or> \<not> truthy (course (profile s))
      then s
      else
        let scheduleData =
          \<lparr>sd_id = None,
           sd_course = course (profile s),
           sd_location = Some (ns_location (newSchedule s)),
           sd_time = Some (ns_time (newSchedule s)),
           sd_day = Some (ns_day (newSchedule s)),
           sd_instructor = name (profile s),
           sd_postedAt = Some now\<rparr>
        in case added of
             Fulfilled newId \<Rightarrow>
               s\<lparr>store_schedule := store_schedule s @ [(newId, scheduleData)],
                 newSchedule :=
                   \<lparr>ns_course = course (profile s), ns_location = [], ns_time = [],
                    ns_day = ''Monday'', ns_instructor = name (profile s)\<rparr>\<rparr>
           | Rejected e \<Rightarrow>
               s\<lparr>console := console s @ [ConsoleError ''Error posting schedule:'' e]\<rparr>)"

section \<open>Profile store\<close>

text \<open>
  \<^verbatim>\<open>initializeProfile\<close> (lines 104 to 119), for the user id \<^verbatim>\<open>uid\<close> of the effect run
  that started it. \<^verbatim>\<open>got\<close> and \<^verbatim>\<open>wrote\<close> say whether \<^verbatim>\<open>await getDoc\<close> and \<^verbatim>\<open>await setDoc\<close>
  resolve or reject. The function has no \<^verbatim>\<open>try\<close>: a rejected call rejects the promise of
  \<^verbatim>\<open>initializeProfile()\<close> itself, which the effect neither awaits nor catches. That
  outcome is \<^verbatim>\<open>Inl\<close> with the error. \<^verbatim>\<open>substring(0, 8)\<close> is \<^verbatim>\<open>take 8\<close>.
\<close>

definition initializeProfile ::
  "string \<Rightarrow> timestamp \<Rightarrow> unit promise \<Rightarrow> unit promise \<Rightarrow> state \<Rightarrow> string + state" where
  "initializeProfile uid now got wrote s =
     (case got of
        Rejected e \<Rightarrow> Inl e
      | Fulfilled _ \<Rightarrow>
          (case store_profiles s uid of
             None \<Rightarrow>
               let defaultProfile =
                 \<lparr>name = Some ''Dr. Jane Smith'', facultyId = Some (take 8 uid),
                  email = Some ''jane.smith@rbc.edu'', course = Some ''CS101'',
                  lastLogin = Some now\<rparr>
               in (case wrote of
                     Rejected e \<Rightarrow> Inl e
                   | Fulfilled _ \<Rightarrow>
                       Inr (s\<lparr>store_profiles := (store_profiles s)(uid \<mapsto> defaultProfile),
                              profile := defaultProfile\<rparr>))
           | Some stored \<Rightarrow> Inr (s\<lparr>profile := stored\<rparr>)))"

text \<open>
  The two callbacks of the profile listener (lines 124 to 130). \<^verbatim>\<open>snap\<close> is the data of
  the delivered snapshot, \<^verbatim>\<open>None\<close> when \<^verbatim>\<open>docSnap.exists()\<close> is false.
\<close>

definition profile_onSnapshot :: "profile option \<Rightarrow> state \<Rightarrow> state" where
  "profile_onSnapshot snap s = (case snap of Some d \<Rightarrow> s\<lparr>profile := d\<rparr> | None \<Rightarrow> s)"

definition profile_onError :: "string \<Rightarrow> state \<Rightarrow> state" where
  "profile_onError e s =
     s\<lparr>console := console s @ [ConsoleError ''Error listening to faculty profile:'' e]\<rparr>"

section \<open>JavaScript numbers\<close>

text \<open>
  Line 149 subtracts two timestamps. The subtraction asks each \<^verbatim>\<open>Timestamp\<close> for its
  \<^verbatim>\<open>valueOf()\<close>, a string of the seconds since 0001-01-01T00:00:00Z, a point and the nine
  digits of the nanoseconds, and reads the string as a Number: the IEEE 754 double nearest
  to the decimal, ties to even. The difference of the two doubles is rounded to a double
  again.

  A double is a pair of integers \<^verbatim>\<open>Double m e\<close> and stands for \<^verbatim>\<open>m * 2 ^ e\<close>.
  \<^verbatim>\<open>binary64 n d\<close> is the double nearest to the quotient \<^verbatim>\<open>n / d\<close>, for \<^verbatim>\<open>d\<close> above 0: with
  \<^verbatim>\<open>2 ^ e\<close> the largest power of 2 up to \<^verbatim>\<open>|n| / d\<close>, the quotient is rounded to a
  multiple of \<^verbatim>\<open>2 ^ (e - 52)\<close>, which leaves a significand of 53 bits. The quotients that
  occur here are far from the overflow and from the subnormal range of doubles.
\<close>

function bit_length :: "int \<Rightarrow> nat" where
  "bit_length n = (if n \<le> 0 then 0 else Suc (bit_length (n div 2)))"
  by pat_completeness auto
termination
  by (relation "measure nat") auto

declare bit_length.simps [simp del]

definition round_half_even :: "int \<Rightarrow> int \<Rightarrow> int" where
  "round_half_even n d =
     (let q = n div d; r = n mod d
      in if 2 * r < d then q else if d < 2 * r then q + 1 else if even q then q else q + 1)"

datatype double = Double int int

fun significand :: "double \<Rightarrow> int" where
  "significand (Double m e) = m"

definition binary64 :: "int \<Rightarrow> int \<Rightarrow> double" where
  "binary64 n d =
     (if n = 0 then Double 0 0
      else
        let e = (if d \<le> \<bar>n\<bar> then int (bit_length (\<bar>n\<bar> div d)) - 1
                 else - int (bit_length ((d - 1) div \<bar>n\<bar>)))
        in if e \<le> 52
           then Double (round_half_even (n * 2 ^ nat (52 - e)) d) (e - 52)
           else Double (round_half_even n (d * 2 ^ nat (e - 52))) (e - 52))"

text \<open>The difference of two doubles: exact on a common exponent, then rounded.\<close>

fun double_minus :: "double \<Rightarrow> double \<Rightarrow> double" where
  "double_minus (Double m1 e1) (Double m2 e2) =
     (let e = min e1 e2;
          n = m1 * 2 ^ nat (e1 - e) - m2 * 2 ^ nat (e2 - e)
      in if 0 \<le> e then binary64 (n * 2 ^ nat e) 1 else binary64 n (2 ^ nat (- e)))"

text \<open>The number read from a timestamp: its seconds, with the nanoseconds as decimals.\<close>

definition timestamp_number :: "timestamp \<Rightarrow> double" where
  "timestamp_number t = binary64 (int t) 1000000000"

section \<open>Content subscriptions\<close>

text \<open>
  \<^verbatim>\<open>Array.prototype.sort\<close> with a comparison function: a stable sort that puts \<^verbatim>\<open>a\<close>
  before \<^verbatim>\<open>b\<close> when the comparison is negative and keeps their order when it is zero. Of
  the number that the comparison returns the sort reads the sign only.
\<close>

fun insert_by :: "('a \<Rightarrow> 'a \<Rightarrow> double) \<Rightarrow> 'a \<Rightarrow> 'a list \<Rightarrow> 'a list" where
  "insert_by cmp x [] = [x]"
| "insert_by cmp x (y # ys) =
     (if significand (cmp x y) \<le> 0 then x # y # ys else y # insert_by cmp x ys)"

definition js_sort :: "('a \<Rightarrow> 'a \<Rightarrow> double) \<Rightarrow> 'a list \<Rightarrow> 'a list" where
  "js_sort cmp xs = foldr (insert_by cmp) xs []"

text \<open>
  \<^verbatim>\<open>x.postedAt || 0\<close> as the subtraction of line 149 reads it, and the comparison function
  of that line. A \<^verbatim>\<open>Timestamp\<close> is an object and so is truthy.
\<close>

definition postedAt_or_0 :: "assignment \<Rightarrow> double" where
  "postedAt_or_0 a = (case a_postedAt a of None \<Rightarrow> Double 0 0 | Some t \<Rightarrow> timestamp_number t)"

definition postedAt_cmp :: "assignment \<Rightarrow> assignment \<Rightarrow> double" where
  "postedAt_cmp a b = double_minus (postedAt_or_0 b) (postedAt_or_0 a)"

text \<open>
  The projection of one document of the assignments snapshot (lines 144 to 148). The object
  starts with \<^verbatim>\<open>id: d.id\<close>, then the fields of the data are spread over it, so a stored
  field named \<^verbatim>\<open>id\<close> replaces the id of the document; the due date comes last, as a
  \<^verbatim>\<open>Date\<close> or \<^verbatim>\<open>null\<close>.
\<close>

definition assignment_of_doc :: "string \<times> assignment_data \<Rightarrow> assignment" where
  "assignment_of_doc d =
     \<lparr>a_id = (case ad_id (snd d) of None \<Rightarrow> fst d | Some stored \<Rightarrow> stored),
      a_title = ad_title (snd d),
      a_description = ad_description (snd d),
      a_course = ad_course (snd d),
      a_dueDate = (case ad_dueDate (snd d) of Some t \<Rightarrow> Some (toDate t) | None \<Rightarrow> None),
      a_postedBy = ad_postedBy (snd d),
      a_postedAt = ad_postedAt (snd d)\<rparr>"

definition assignments_onSnapshot :: "(string \<times> assignment_data) list \<Rightarrow> state \<Rightarrow> state" where
  "assignments_onSnapshot docs s =
     (let assignmentsList = map assignment_of_doc docs
      in s\<lparr>assignments := js_sort postedAt_cmp assignmentsList\<rparr>)"

definition assignments_onError :: "string \<Rightarrow> state \<Rightarrow> state" where
  "assignments_onError e s =
     s\<lparr>console := console s @ [ConsoleError ''Error listening to assignments:'' e]\<rparr>"

text \<open>
  The schedule listener (lines 158 to 167): the same spread, \<^verbatim>\<open>time\<close> defaults to
  \<^verbatim>\<open>'N/A'\<close>, no sort.
\<close>

definition schedule_of_doc :: "string \<times> schedule_data \<Rightarrow> schedule_entry" where
  "schedule_of_doc d =
     \<lparr>se_id = (case sd_id (snd d) of None \<Rightarrow> fst d | Some stored \<Rightarrow> stored),
      se_course = sd_course (snd d),
      se_location = sd_location (snd d),
      se_time = (case sd_time (snd d) of
                   None \<Rightarrow> ''N/A''
                 | Some t \<Rightarrow> if t = [] then ''N/A'' else t),
      se_day = sd_day (snd d),
      se_instructor = sd_instructor (snd d),
      se_postedAt = sd_postedAt (snd d)\<rparr>"

definition schedule_onSnapshot :: "(string \<times> schedule_data) list \<Rightarrow> state \<Rightarrow> state" where
  "schedule_onSnapshot docs s = s\<lparr>schedule := map schedule_of_doc docs\<rparr>"

definition schedule_onError :: "string \<Rightarrow> state \<Rightarrow> state" where
  "schedule_onError e s =
     s\<lparr>console := console s @ [ConsoleError ''Error listening to schedule:'' e]\<rparr>"

section \<open>Identity session and form edits\<close>

text \<open>
  The initialisation effect (lines 44 to 93): the configuration is missing, or
  \<^verbatim>\<open>initializeApp\<close>, \<^verbatim>\<open>getFirestore\<close> or \<^verbatim>\<open>getAuth\<close> throws before a handle is
  stored, or the handles are stored and the auth listener is registered.
\<close>

datatype mount_outcome = ConfigMissing | InitThrows string | InitOk

definition mount :: "mount_outcome \<Rightarrow> state \<Rightarrow> state" where
  "mount m s =
     (case m of
        ConfigMissing \<Rightarrow>
          s\<lparr>console := console s @
               [ConsoleError ''Firebase config is missing. App cannot initialize.'' []],
            loading := False\<rparr>
      | InitThrows e \<Rightarrow>
          s\<lparr>console := console s @ [ConsoleError ''Failed to initialize Firebase:'' e],
            loading := False\<rparr>
      | InitOk \<Rightarrow> s\<lparr>db := True, auth := True\<rparr>)"

text \<open>The \<^verbatim>\<open>catch\<close> of \<^verbatim>\<open>handleAuth\<close> (lines 69 to 71).\<close>

definition handleAuth_failed :: "string \<Rightarrow> state \<Rightarrow> state" where
  "handleAuth_failed e s =
     s\<lparr>console := console s @ [ConsoleError ''Firebase authentication failed:'' e]\<rparr>"

text \<open>
  The listener given to \<^verbatim>\<open>onAuthStateChanged\<close> (lines 75 to 83). \<^verbatim>\<open>user\<close> is the uid of
  the signed-in user or \<^verbatim>\<open>None\<close> for \<^verbatim>\<open>null\<close>; \<^verbatim>\<open>uuid\<close> is what
  \<^verbatim>\<open>crypto.randomUUID()\<close> returns when it is called.
\<close>

definition authStateChanged :: "string option \<Rightarrow> string \<Rightarrow> state \<Rightarrow> state" where
  "authStateChanged user uuid s =
     s\<lparr>userId := (case user of Some uid \<Rightarrow> Some uid | None \<Rightarrow> Some uuid),
       isAuthReady := True,
       loading := False\<rparr>"

text \<open>
  The form edits (lines 177 to 183) write the field named by the input. The inputs of
  the component have the names below; any other name would add a key that neither the
  handlers nor the views read, and leaves the record as it is.
\<close>

definition handleAssignmentChange :: "string \<Rightarrow> string \<Rightarrow> state \<Rightarrow> state" where
  "handleAssignmentChange field v s =
     (if field = ''title'' then s\<lparr>newAssignment := (newAssignment s)\<lparr>na_title := v\<rparr>\<rparr>
      else if field = ''description''
        then s\<lparr>newAssignment := (newAssignment s)\<lparr>na_description := v\<rparr>\<rparr>
      else if field = ''dueDate'' then s\<lparr>newAssignment := (newAssignment s)\<lparr>na_dueDate := v\<rparr>\<rparr>
      else if field = ''course''
        then s\<lparr>newAssignment := (newAssignment s)\<lparr>na_course := Some v\<rparr>\<rparr>
      else s)"

definition handleScheduleChange :: "string \<Rightarrow> string \<Rightarrow> state \<Rightarrow> state" where
  "handleScheduleChange field v s =
     (if field = ''location'' then s\<lparr>newSchedule := (newSchedule s)\<lparr>ns_location := v\<rparr>\<rparr>
      else if field = ''time'' then s\<lparr>newSchedule := (newSchedule s)\<lparr>ns_time := v\<rparr>\<rparr>
      else if field = ''day'' then s\<lparr>newSchedule := (newSchedule s)\<lparr>ns_day := v\<rparr>\<rparr>
      else if field = ''course'' then s\<lparr>newSchedule := (newSchedule s)\<lparr>ns_course := Some v\<rparr>\<rparr>
      else if field = ''instructor''
        then s\<lparr>newSchedule := (newSchedule s)\<lparr>ns_instructor := Some v\<rparr>\<rparr>
      else s)"

section \<open>The component as a transition system\<close>

text \<open>
  React runs the effects in a pass of its own, after the render that follows a change of
  the state: until that pass the listeners of the previous run stay open. In a pass an
  effect runs when one of its dependencies differs from the value it had at the last run
  of the effect: first the clean-up of that run, which closes its listener, then the
  effect. At the mount the two effects below run on the initial state, where their guards
  return at once; the dependencies of that run are those of \<^verbatim>\<open>initial_state\<close>.

  The profile effect (lines 98 to 133) depends on \<^verbatim>\<open>db\<close>, \<^verbatim>\<open>userId\<close> and \<^verbatim>\<open>isAuthReady\<close>.
  Past its guard it calls \<^verbatim>\<open>initializeProfile()\<close>, which completes later, and opens the
  profile listener.
\<close>

definition profile_effect :: "state \<Rightarrow> state" where
  "profile_effect s =
     (if profile_deps s = (db s, userId s, isAuthReady s) then s
      else
        let cleaned = s\<lparr>profile_deps := (db s, userId s, isAuthReady s), profile_sub := None\<rparr>
        in if \<not> db s \<or> \<not> truthy (userId s) \<or> \<not> isAuthReady s then cleaned
           else case userId s of
                  None \<Rightarrow> cleaned
                | Some uid \<Rightarrow>
                    cleaned\<lparr>initializing := initializing s @ [uid], profile_sub := Some uid\<rparr>)"

text \<open>
  The content effect (lines 136 to 173) depends on \<^verbatim>\<open>db\<close>, \<^verbatim>\<open>isAuthReady\<close> and
  \<^verbatim>\<open>profile.course\<close>. Past its guard it opens the two content listeners on that course.
\<close>

definition content_effect :: "state \<Rightarrow> state" where
  "content_effect s =
     (if content_deps s = (db s, isAuthReady s, course (profile s)) then s
      else
        let cleaned =
          s\<lparr>content_deps := (db s, isAuthReady s, course (profile s)), content_sub := None\<rparr>
        in if \<not> db s \<or> \<not> isAuthReady s \<or> \<not> truthy (course (profile s)) then cleaned
           else cleaned\<lparr>content_sub := course (profile s)\<rparr>)"

definition run_effects :: "state \<Rightarrow> state" where
  "run_effects s = content_effect (profile_effect s)"

datatype event =
    Mount mount_outcome
  | EffectsPass
  | SignInFailed string
  | AuthStateChanged "string option" string
  | InitializeProfileDone string timestamp "unit promise" "unit promise"
  | ProfileSnapshot "profile option"
  | ProfileListenError string
  | AssignmentsSnapshot "(string \<times> assignment_data) list"
  | AssignmentsListenError string
  | ScheduleSnapshot "(string \<times> schedule_data) list"
  | ScheduleListenError string
  | AssignmentChange string string
  | ScheduleChange string string
  | PostAssignment "string \<Rightarrow> string + timestamp" timestamp "string promise"
  | PostSchedule timestamp "string promise"

text \<open>
  A listener callback runs only while its listener is registered. A call of
  \<^verbatim>\<open>initializeProfile\<close> completes for the user id of the effect run that started it,
  whatever has happened since: nothing cancels it. When it is rejected, nobody handles the
  rejection.
\<close>

fun step :: "event \<Rightarrow> state \<Rightarrow> state" where
  "step (Mount m) s = mount m s"
| "step EffectsPass s = run_effects s"
| "step (SignInFailed e) s = handleAuth_failed e s"
| "step (AuthStateChanged user uuid) s = (if auth s then authStateChanged user uuid s else s)"
| "step (InitializeProfileDone uid now got wrote) s =
     (if uid \<in> set (initializing s)
      then (case initializeProfile uid now got wrote s of
              Inl e \<Rightarrow>
                s\<lparr>uncaught := uncaught s @ [e], initializing := remove1 uid (initializing s)\<rparr>
            | Inr s' \<Rightarrow> s'\<lparr>initializing := remove1 uid (initializing s)\<rparr>)
      else s)"
| "step (ProfileSnapshot snap) s =
     (if profile_sub s = None then s else profile_onSnapshot snap s)"
| "step (ProfileListenError e) s = (if profile_sub s = None then s else profile_onError e s)"
| "step (AssignmentsSnapshot docs) s =
     (if content_sub s = None then s else assignments_onSnapshot docs s)"
| "step (AssignmentsListenError e) s =
     (if content_sub s = None then s else assignments_onError e s)"
| "step (ScheduleSnapshot docs) s =
     (if content_sub s = None then s else schedule_onSnapshot docs s)"
| "step (ScheduleListenError e) s =
     (if content_sub s = None then s else schedule_onError e s)"
| "step (AssignmentChange field v) s = handleAssignmentChange field v s"
| "step (ScheduleChange field v) s = handleScheduleChange field v s"
| "step (PostAssignment fromDate now added) s = handlePostAssignment fromDate now added s"
| "step (PostSchedule now added) s = handlePostSchedule now added s"

fun run :: "event list \<Rightarrow> state \<Rightarrow> state" where
  "run [] s = s"
| "run (e # es) s = run es (step e s)"

text \<open>
  The profile value that an event hands to \<^verbatim>\<open>setProfile\<close> in a state, if it does: the data
  of a snapshot of an existing document, or the stored or default profile of a call of
  \<^verbatim>\<open>initializeProfile\<close> that is not rejected. \<^verbatim>\<open>deliveries\<close> are the values delivered in
  the course of a run.
\<close>

fun delivery :: "event \<Rightarrow> state \<Rightarrow> profile option" where
  "delivery (ProfileSnapshot snap) s = (if profile_sub s = None then None else snap)"
| "delivery (InitializeProfileDone uid now got wrote) s =
     (if uid \<in> set (initializing s)
      then (case initializeProfile uid now got wrote s of
              Inl e \<Rightarrow> None
            | Inr s' \<Rightarrow> Some (profile s'))
      else None)"
| "delivery e s = None"

fun deliveries :: "event list \<Rightarrow> state \<Rightarrow> profile list" where
  "deliveries [] s = []"
| "deliveries (e # es) s =
     (case delivery e s of None \<Rightarrow> [] | Some p \<Rightarrow> [p]) @ deliveries es (step e s)"

text \<open>The events of the profile store, and those of the auth-state listener.\<close>

fun profile_event :: "event \<Rightarrow> bool" where
  "profile_event (InitializeProfileDone uid now got wrote) = True"
| "profile_event (ProfileSnapshot snap) = True"
| "profile_event e = False"

fun auth_event :: "event \<Rightarrow> bool" where
  "auth_event (AuthStateChanged user uuid) = True"
| "auth_event e = False"

section \<open>Sample inputs\<close>

text \<open>
  A state with both forms filled in. A snapshot of three assignment documents: the first
  two were posted 2000 nanoseconds apart on 2023-11-14, the third a millisecond after the
  first. A run of the component up to the effect pass that follows sign-in.
\<close>

definition filled_state :: state where
  "filled_state =
     (initial_state [] [] Map.empty)
       \<lparr>db := True,
        newAssignment :=
          \<lparr>na_title = ''Essay'', na_description = ''Write it'', na_dueDate = ''2025-01-31'',
           na_course = Some ''CS101''\<rparr>,
        newSchedule :=
          \<lparr>ns_course = Some ''CS101'', ns_location = ''SW-305'', ns_time = ''9:00-10:30'',
           ns_day = ''Monday'', ns_instructor = Some ''Dr. Smith''\<rparr>,
        profile :=
          \<lparr>name = Some ''Dr. Smith'', facultyId = Some ''abcdefgh'',
           email = Some ''smith@rbc.edu'', course = Some ''CS101'', lastLogin = Some 5\<rparr>\<rparr>"

definition posted :: "string \<Rightarrow> timestamp \<Rightarrow> string \<times> assignment_data" where
  "posted i t =
     (i, \<lparr>ad_id = None, ad_title = Some ''A'', ad_description = Some ''a'',
          ad_course = Some ''CS101'', ad_dueDate = None, ad_postedBy = Some ''X'',
          ad_postedAt = Some t\<rparr>)"

definition close_docs :: "(string \<times> assignment_data) list" where
  "close_docs =
     [posted ''older'' 63835596800000001000,
      posted ''newer'' 63835596800000003000,
      posted ''later'' 63835596800001001000]"

definition bootstrap_trace :: "event list" where
  "bootstrap_trace =
     [Mount InitOk, EffectsPass,
      AuthStateChanged (Some ''abcdefgh12345'') ''fallback'', EffectsPass]"

section \<open>Helper lemmas\<close>

lemmas filled_defs = filled_state_def initial_state_def initial_profile_def truthy_def

lemmas trace_defs = bootstrap_trace_def initial_state_def initial_profile_def
  run_effects_def profile_effect_def content_effect_def mount_def authStateChanged_def
  truthy_def Let_def

lemma filled_assignment_guard:
  "db filled_state"
  "na_title (newAssignment filled_state) \<noteq> []"
  "na_description (newAssignment filled_state) \<noteq> []"
  "na_dueDate (newAssignment filled_state) \<noteq> []"
  "truthy (course (profile filled_state))"
  by (simp_all add: filled_defs)

lemma filled_schedule_guard:
  "db filled_state"
  "ns_location (newSchedule filled_state) \<noteq> []"
  "ns_time (newSchedule filled_state) \<noteq> []"
  "ns_day (newSchedule filled_state) \<noteq> []"
  "truthy (course (profile filled_state))"
  by (simp_all add: filled_defs)

subsection \<open>The numbers of the sample timestamps\<close>

lemma close_numbers:
  "timestamp_number 63835596800000001000 = Double 8367059343769600 (- 17)"
  "timestamp_number 63835596800000003000 = Double 8367059343769600 (- 17)"
  "timestamp_number 63835596800001001000 = Double 8367059343769731 (- 17)"
  by (simp_all add: timestamp_number_def binary64_def round_half_even_def Let_def
      bit_length.simps)

subsection \<open>What a step leaves alone\<close>

lemma run_snoc: "run (es @ [e]) s = step e (run es s)"
  by (induction es arbitrary: s) simp_all

lemma deliveries_snoc:
  "deliveries (es @ [e]) s =
     deliveries es s @ (case delivery e (run es s) of None \<Rightarrow> [] | Some p \<Rightarrow> [p])"
  by (induction es arbitrary: s) simp_all

lemma handlePostAssignment_frame:
  "profile (handlePostAssignment f n a s) = profile s"
  "userId (handlePostAssignment f n a s) = userId s"
  "db (handlePostAssignment f n a s) = db s"
  "isAuthReady (handlePostAssignment f n a s) = isAuthReady s"
  "content_sub (handlePostAssignment f n a s) = content_sub s"
  by (simp_all add: handlePostAssignment_def Let_def split: sum.splits promise.splits)

lemma handlePostSchedule_frame:
  "profile (handlePostSchedule n a s) = profile s"
  "userId (handlePostSchedule n a s) = userId s"
  "db (handlePostSchedule n a s) = db s"
  "isAuthReady (handlePostSchedule n a s) = isAuthReady s"
  "content_sub (handlePostSchedule n a s) = content_sub s"
  by (simp_all add: handlePostSchedule_def Let_def split: promise.splits)

lemma initializeProfile_frame:
  assumes "initializeProfile uid n g w s = Inr s'"
  shows "userId s' = userId s" and "db s' = db s" and "isAuthReady s' = isAuthReady s"
    and "content_sub s' = content_sub s"
  using assms
  by (auto simp add: initializeProfile_def Let_def split: promise.splits option.splits)

lemma run_effects_frame:
  "profile (run_effects s) = profile s"
  "userId (run_effects s) = userId s"
  "db (run_effects s) = db s"
  "isAuthReady (run_effects s) = isAuthReady s"
  by (simp_all add: run_effects_def profile_effect_def content_effect_def Let_def
      split: option.splits)

lemma run_effects_content_sub:
  assumes "content_sub (run_effects s) = Some c"
  shows "content_sub s = Some c
         \<or> (db s \<and> isAuthReady s \<and> c \<noteq> [] \<and> course (profile s) = Some c)"
  using assms
  by (auto simp add: run_effects_def profile_effect_def content_effect_def Let_def truthy_def
      split: option.splits if_splits)

lemmas handler_defs = mount_def handleAuth_failed_def authStateChanged_def
  assignments_onSnapshot_def assignments_onError_def schedule_onSnapshot_def
  schedule_onError_def profile_onError_def profile_onSnapshot_def handleAssignmentChange_def
  handleScheduleChange_def

lemma step_userId: "\<not> auth_event e \<Longrightarrow> userId (step e s) = userId s"
  by (cases e)
    (auto simp add: handler_defs handlePostAssignment_frame handlePostSchedule_frame
      run_effects_frame initializeProfile_frame
      split: mount_outcome.splits option.splits sum.splits)

lemma step_db: "db s \<Longrightarrow> db (step e s)"
  by (cases e)
    (auto simp add: handler_defs handlePostAssignment_frame handlePostSchedule_frame
      run_effects_frame initializeProfile_frame
      split: mount_outcome.splits option.splits sum.splits)

lemma step_isAuthReady: "isAuthReady s \<Longrightarrow> isAuthReady (step e s)"
  by (cases e)
    (auto simp add: handler_defs handlePostAssignment_frame handlePostSchedule_frame
      run_effects_frame initializeProfile_frame
      split: mount_outcome.splits option.splits sum.splits)

lemma step_profile:
  "profile (step e s) = (case delivery e s of None \<Rightarrow> profile s | Some p \<Rightarrow> p)"
  by (cases e)
    (auto simp add: handler_defs handlePostAssignment_frame handlePostSchedule_frame
      run_effects_frame
      split: mount_outcome.splits option.splits sum.splits)

lemma step_content_sub:
  assumes "content_sub (step e s) = Some c"
  shows "content_sub s = Some c
         \<or> (db s \<and> isAuthReady s \<and> c \<noteq> [] \<and> course (profile s) = Some c)"
proof (cases e)
  case EffectsPass
  with assms show ?thesis by (simp add: run_effects_content_sub)
next
  case (InitializeProfileDone uid n g w)
  with assms show ?thesis
    by (auto simp add: initializeProfile_frame split: if_splits sum.splits)
qed (use assms in \<open>auto simp add: handler_defs handlePostAssignment_frame
      handlePostSchedule_frame split: mount_outcome.splits option.splits if_splits\<close>)

subsection \<open>Where the local profile and the filter come from\<close>

lemma run_profile:
  "profile (run es s) = profile s \<or> profile (run es s) \<in> set (deliveries es s)"
proof (induction es rule: rev_induct)
  case Nil
  show ?case by simp
next
  case (snoc e es)
  show ?case
  proof (cases "delivery e (run es s)")
    case None
    with snoc show ?thesis by (auto simp add: run_snoc deliveries_snoc step_profile)
  next
    case (Some p)
    then show ?thesis by (simp add: run_snoc deliveries_snoc step_profile)
  qed
qed

lemma run_content_sub:
  assumes "content_sub (run es s) = Some c" and "content_sub s = None"
  shows "db (run es s) \<and> isAuthReady (run es s) \<and> c \<noteq> []
         \<and> (course (profile s) = Some c \<or> (\<exists>p\<in>set (deliveries es s). course p = Some c))"
  using assms(1)
proof (induction es arbitrary: c rule: rev_induct)
  case Nil
  with assms(2) show ?case by simp
next
  case (snoc e es)
  let ?t = "run es s"
  from snoc.prems have now: "content_sub (step e ?t) = Some c"
    by (simp add: run_snoc)
  have grow: "set (deliveries es s) \<subseteq> set (deliveries (es @ [e]) s)"
    by (simp add: deliveries_snoc)
  from step_content_sub [OF now] show ?case
  proof
    assume "content_sub ?t = Some c"
    from snoc.IH [OF this] grow show ?thesis
      by (auto simp add: run_snoc step_db step_isAuthReady)
  next
    assume fresh: "db ?t \<and> isAuthReady ?t \<and> c \<noteq> [] \<and> course (profile ?t) = Some c"
    from run_profile [of es s] fresh
    have "course (profile s) = Some c \<or> (\<exists>p\<in>set (deliveries es s). course p = Some c)"
      by auto
    with fresh grow show ?thesis
      by (auto simp add: run_snoc step_db step_isAuthReady)
  qed
qed

section \<open>Mutation commands: the claims\<close>

text \<open>
  C1, as amended. When \<^verbatim>\<open>db\<close> is set, title, description and due date of the form are
  non-empty, the profile has a non-empty course, the due date converts to a timestamp
  without an exception and \<^verbatim>\<open>addDoc\<close> resolves, \<^verbatim>\<open>handlePostAssignment\<close> appends exactly
  one document to the assignments collection. Its course is \<^verbatim>\<open>profile.course\<close>, its
  \<^verbatim>\<open>postedBy\<close> is \<^verbatim>\<open>profile.name\<close>, its title and description are the form's. Afterwards
  title, description and due date of the form are empty and the form's course is
  \<^verbatim>\<open>profile.course\<close>.
\<close>

theorem postAssignment_appends_and_resets:
  assumes "db s"
    and "na_title (newAssignment s) \<noteq> []"
    and "na_description (newAssignment s) \<noteq> []"
    and "na_dueDate (newAssignment s) \<noteq> []"
    and "truthy (course (profile s))"
    and "fromDate (na_dueDate (newAssignment s)) = Inr due"
  shows "store_assignments (handlePostAssignment fromDate now (Fulfilled newId) s)
           = store_assignments s @
               [(newId, \<lparr>ad_id = None,
                         ad_title = Some (na_title (newAssignment s)),
                         ad_description = Some (na_description (newAssignment s)),
                         ad_course = course (profile s),
                         ad_dueDate = Some due,
                         ad_postedBy = name (profile s),
                         ad_postedAt = Some now\<rparr>)]
         \<and> newAssignment (handlePostAssignment fromDate now (Fulfilled newId) s)
           = \<lparr>na_title = [], na_description = [], na_dueDate = [],
              na_course = course (profile s)\<rparr>"
proof -
  from assms have guard:
    "\<not> (\<not> db s \<or> na_title (newAssignment s) = [] \<or> na_description (newAssignment s) = []
        \<or> na_dueDate (newAssignment s) = [] \<or> \<not> truthy (course (profile s)))"
    by simp
  show ?thesis
    unfolding handlePostAssignment_def using guard assms(6) by (simp add: Let_def)
qed

text \<open>The amended C1 on the filled form: one document, for course CS101, by Dr. Smith.\<close>

theorem postAssignment_appends_and_resets_witness:
  "db filled_state \<and> truthy (course (profile filled_state))
   \<and> store_assignments (handlePostAssignment (\<lambda>d. Inr 7) 9 (Fulfilled ''doc1'') filled_state)
       = [(''doc1'', \<lparr>ad_id = None, ad_title = Some ''Essay'', ad_description = Some ''Write it'',
                      ad_course = Some ''CS101'', ad_dueDate = Some 7,
                      ad_postedBy = Some ''Dr. Smith'', ad_postedAt = Some 9\<rparr>)]
   \<and> newAssignment (handlePostAssignment (\<lambda>d. Inr 7) 9 (Fulfilled ''doc1'') filled_state)
       = \<lparr>na_title = [], na_description = [], na_dueDate = [], na_course = Some ''CS101''\<rparr>"
proof -
  have converts: "(\<lambda>d. Inr 7 :: string + timestamp) (na_dueDate (newAssignment filled_state)) = Inr 7"
    by simp
  from postAssignment_appends_and_resets
    [OF filled_assignment_guard converts, of 9 "''doc1''"] filled_assignment_guard
  show ?thesis by (simp add: filled_defs)
qed

text \<open>
  C1 as it is written fails twice over, with \<^verbatim>\<open>db\<close> set, all three fields filled in and a
  course in the profile. When \<^verbatim>\<open>addDoc\<close> rejects, nothing is appended and the title stays
  in the form. When the conversion of the due date throws, nothing is appended and the
  title stays in the form although \<^verbatim>\<open>addDoc\<close> would resolve; the exception is not caught.
\<close>

theorem postAssignment_rejected_counterexample:
  "db filled_state
   \<and> na_title (newAssignment filled_state) \<noteq> []
   \<and> na_description (newAssignment filled_state) \<noteq> []
   \<and> na_dueDate (newAssignment filled_state) \<noteq> []
   \<and> truthy (course (profile filled_state))
   \<and> store_assignments
        (handlePostAssignment (\<lambda>d. Inr 7) 9 (Rejected ''permission-denied'') filled_state)
      = store_assignments filled_state
   \<and> na_title (newAssignment
        (handlePostAssignment (\<lambda>d. Inr 7) 9 (Rejected ''permission-denied'') filled_state))
      = ''Essay''
   \<and> store_assignments
        (handlePostAssignment (\<lambda>d. Inl ''seconds out of range'') 9 (Fulfilled ''doc1'')
           filled_state)
      = store_assignments filled_state
   \<and> na_title (newAssignment
        (handlePostAssignment (\<lambda>d. Inl ''seconds out of range'') 9 (Fulfilled ''doc1'')
           filled_state))
      = ''Essay''
   \<and> uncaught
        (handlePostAssignment (\<lambda>d. Inl ''seconds out of range'') 9 (Fulfilled ''doc1'')
           filled_state)
      = [''seconds out of range'']"
  by (simp add: handlePostAssignment_def filled_defs)

text \<open>
  C2. When \<^verbatim>\<open>db\<close> is not set, or one of title, description and due date is empty, or the
  profile has no course, \<^verbatim>\<open>handlePostAssignment\<close> returns the state it got: nothing is
  appended to a collection, the form is the same, nothing is written to the console, and
  no error leaves the handler.
\<close>

theorem postAssignment_incomplete_noop:
  assumes "\<not> db s \<or> na_title (newAssignment s) = [] \<or> na_description (newAssignment s) = []
           \<or> na_dueDate (newAssignment s) = [] \<or> \<not> truthy (course (profile s))"
  shows "handlePostAssignment fromDate now added s = s"
  unfolding handlePostAssignment_def using assms by (simp only: if_True)

text \<open>C2 on the filled form with the due date cleared.\<close>

theorem postAssignment_incomplete_noop_witness:
  "na_dueDate (newAssignment
      (filled_state\<lparr>newAssignment := (newAssignment filled_state)\<lparr>na_dueDate := []\<rparr>\<rparr>)) = []
   \<and> handlePostAssignment (\<lambda>d. Inr 7) 9 (Fulfilled ''doc1'')
        (filled_state\<lparr>newAssignment := (newAssignment filled_state)\<lparr>na_dueDate := []\<rparr>\<rparr>)
      = filled_state\<lparr>newAssignment := (newAssignment filled_state)\<lparr>na_dueDate := []\<rparr>\<rparr>"
  using postAssignment_incomplete_noop
    [of "filled_state\<lparr>newAssignment := (newAssignment filled_state)\<lparr>na_dueDate := []\<rparr>\<rparr>"
      "\<lambda>d. Inr 7" 9 "Fulfilled ''doc1''"]
  by simp

text \<open>
  C5, as amended. When \<^verbatim>\<open>db\<close> is set, location, time and day of the form are non-empty,
  the profile has a non-empty course and \<^verbatim>\<open>addDoc\<close> resolves, \<^verbatim>\<open>handlePostSchedule\<close>
  appends exactly one document to the schedule collection. Its instructor is
  \<^verbatim>\<open>profile.name\<close> and its course \<^verbatim>\<open>profile.course\<close>, not the copies in the form; location,
  time and day are the form's. Afterwards location and time are empty, the day is Monday,
  and the form's instructor and course are those of the profile.
\<close>

theorem postSchedule_appends_and_resets:
  assumes "db s"
    and "ns_location (newSchedule s) \<noteq> []"
    and "ns_time (newSchedule s) \<noteq> []"
    and "ns_day (newSchedule s) \<noteq> []"
    and "truthy (course (profile s))"
  shows "store_schedule (handlePostSchedule now (Fulfilled newId) s)
           = store_schedule s @
               [(newId, \<lparr>sd_id = None,
                         sd_course = course (profile s),
                         sd_location = Some (ns_location (newSchedule s)),
                         sd_time = Some (ns_time (newSchedule s)),
                         sd_day = Some (ns_day (newSchedule s)),
                         sd_instructor = name (profile s),
                         sd_postedAt = Some now\<rparr>)]
         \<and> newSchedule (handlePostSchedule now (Fulfilled newId) s)
           = \<lparr>ns_course = course (profile s), ns_location = [], ns_time = [],
              ns_day = ''Monday'', ns_instructor = name (profile s)\<rparr>"
proof -
  from assms have guard:
    "\<not> (\<not> db s \<or> ns_location (newSchedule s) = [] \<or> ns_time (newSchedule s) = []
        \<or> ns_day (newSchedule s) = [] \<or> \<not> truthy (course (profile s)))"
    by simp
  show ?thesis
    unfolding handlePostSchedule_def using guard by (simp add: Let_def)
qed

text \<open>
  The amended C5 on the scenario of the specification: SW-305, 9:00-10:30, Monday, course
  CS101, Dr. Smith.
\<close>

theorem postSchedule_appends_and_resets_witness:
  "db filled_state \<and> truthy (course (profile filled_state))
   \<and> store_schedule (handlePostSchedule 9 (Fulfilled ''e1'') filled_state)
       = [(''e1'', \<lparr>sd_id = None, sd_course = Some ''CS101'', sd_location = Some ''SW-305'',
                    sd_time = Some ''9:00-10:30'', sd_day = Some ''Monday'',
                    sd_instructor = Some ''Dr. Smith'', sd_postedAt = Some 9\<rparr>)]
   \<and> newSchedule (handlePostSchedule 9 (Fulfilled ''e1'') filled_state)
       = \<lparr>ns_course = Some ''CS101'', ns_location = [], ns_time = [],
          ns_day = ''Monday'', ns_instructor = Some ''Dr. Smith''\<rparr>"
  using postSchedule_appends_and_resets [OF filled_schedule_guard, of 9 "''e1''"]
    filled_schedule_guard
  by (simp add: filled_defs)

text \<open>
  C5 as it is written fails: a rejected \<^verbatim>\<open>addDoc\<close> appends nothing to the schedule
  collection and leaves the location in the form.
\<close>

theorem postSchedule_rejected_counterexample:
  "db filled_state
   \<and> ns_location (newSchedule filled_state) \<noteq> []
   \<and> ns_time (newSchedule filled_state) \<noteq> []
   \<and> ns_day (newSchedule filled_state) \<noteq> []
   \<and> truthy (course (profile filled_state))
   \<and> store_schedule (handlePostSchedule 9 (Rejected ''unavailable'') filled_state)
      = store_schedule filled_state
   \<and> ns_location (newSchedule (handlePostSchedule 9 (Rejected ''unavailable'') filled_state))
      = ''SW-305''"
  by (simp add: handlePostSchedule_def filled_defs)

text \<open>
  C9. For both commands: when the append is made and \<^verbatim>\<open>addDoc\<close> rejects, the only change
  of the state is one more error on the console, so the form and the collections are as
  they were. The append of an assignment is made when the guard passes and the due date
  has been converted, that of a schedule entry when the guard passes. Whatever the state
  and the conversion, a rejecting \<^verbatim>\<open>addDoc\<close> leaves the form and the collection as they
  were; and whenever a command changes its form, \<^verbatim>\<open>addDoc\<close> had resolved.
\<close>

theorem post_rejected_keeps_form:
  "(db s \<and> na_title (newAssignment s) \<noteq> [] \<and> na_description (newAssignment s) \<noteq> []
      \<and> na_dueDate (newAssignment s) \<noteq> [] \<and> truthy (course (profile s))
      \<and> fromDate (na_dueDate (newAssignment s)) = Inr due
    \<longrightarrow> handlePostAssignment fromDate now (Rejected e) s
        = s\<lparr>console := console s @ [ConsoleError ''Error posting assignment:'' e]\<rparr>)
   \<and> (db s \<and> ns_location (newSchedule s) \<noteq> [] \<and> ns_time (newSchedule s) \<noteq> []
      \<and> ns_day (newSchedule s) \<noteq> [] \<and> truthy (course (profile s))
    \<longrightarrow> handlePostSchedule now (Rejected e) s
        = s\<lparr>console := console s @ [ConsoleError ''Error posting schedule:'' e]\<rparr>)
   \<and> newAssignment (handlePostAssignment fromDate now (Rejected e) s) = newAssignment s
   \<and> store_assignments (handlePostAssignment fromDate now (Rejected e) s) = store_assignments s
   \<and> newSchedule (handlePostSchedule now (Rejected e) s) = newSchedule s
   \<and> store_schedule (handlePostSchedule now (Rejected e) s) = store_schedule s
   \<and> (newAssignment (handlePostAssignment fromDate now added s) \<noteq> newAssignment s
    \<longrightarrow> (\<exists>newId. added = Fulfilled newId))
   \<and> (newSchedule (handlePostSchedule now added s) \<noteq> newSchedule s
    \<longrightarrow> (\<exists>newId. added = Fulfilled newId))"
proof -
  have a: "newAssignment (handlePostAssignment fromDate now (Rejected x) s) = newAssignment s"
    "store_assignments (handlePostAssignment fromDate now (Rejected x) s) = store_assignments s"
    for x by (simp_all add: handlePostAssignment_def Let_def split: sum.splits)
  have b: "newSchedule (handlePostSchedule now (Rejected x) s) = newSchedule s"
    "store_schedule (handlePostSchedule now (Rejected x) s) = store_schedule s"
    for x by (simp_all add: handlePostSchedule_def Let_def)
  have c: "newAssignment (handlePostAssignment fromDate now added s) \<noteq> newAssignment s
    \<longrightarrow> (\<exists>newId. added = Fulfilled newId)"
    using a(1) by (cases added) auto
  have d: "newSchedule (handlePostSchedule now added s) \<noteq> newSchedule s
    \<longrightarrow> (\<exists>newId. added = Fulfilled newId)"
    using b(1) by (cases added) auto
  have logged_a: "db s \<and> na_title (newAssignment s) \<noteq> [] \<and> na_description (newAssignment s) \<noteq> []
      \<and> na_dueDate (newAssignment s) \<noteq> [] \<and> truthy (course (profile s))
      \<and> fromDate (na_dueDate (newAssignment s)) = Inr due
    \<longrightarrow> handlePostAssignment fromDate now (Rejected e) s
        = s\<lparr>console := console s @ [ConsoleError ''Error posting assignment:'' e]\<rparr>"
    by (simp add: handlePostAssignment_def)
  have logged_b: "db s \<and> ns_location (newSchedule s) \<noteq> [] \<and> ns_time (newSchedule s) \<noteq> []
      \<and> ns_day (newSchedule s) \<noteq> [] \<and> truthy (course (profile s))
    \<longrightarrow> handlePostSchedule now (Rejected e) s
        = s\<lparr>console := console s @ [ConsoleError ''Error posting schedule:'' e]\<rparr>"
    by (simp add: handlePostSchedule_def)
  from logged_a logged_b a b c d show ?thesis by (intro conjI)
qed

text \<open>C9 on the filled forms: one console line each, both forms as they were.\<close>

theorem post_rejected_keeps_form_witness:
  "db filled_state \<and> truthy (course (profile filled_state))
   \<and> console (handlePostAssignment (\<lambda>d. Inr 7) 9 (Rejected ''denied'') filled_state)
       = [ConsoleError ''Error posting assignment:'' ''denied'']
   \<and> newAssignment (handlePostAssignment (\<lambda>d. Inr 7) 9 (Rejected ''denied'') filled_state)
       = newAssignment filled_state
   \<and> console (handlePostSchedule 9 (Rejected ''denied'') filled_state)
       = [ConsoleError ''Error posting schedule:'' ''denied'']
   \<and> newSchedule (handlePostSchedule 9 (Rejected ''denied'') filled_state)
       = newSchedule filled_state"
proof -
  have c: "console filled_state = []" by (simp add: filled_defs)
  from post_rejected_keeps_form
    [where s = filled_state and fromDate = "\<lambda>d. Inr 7" and due = 7 and now = 9
      and e = "''denied''"]
    filled_assignment_guard filled_schedule_guard c
  show ?thesis by simp
qed

section \<open>Content subscriptions: the claims\<close>

text \<open>
  C3 fails on the code. The documents older and newer were posted 2000 nanoseconds apart.
  The two timestamps read as the same number, the comparison of line 149 returns 0 for
  them, and the sort leaves them in the order of the snapshot: the older one is delivered
  before the newer one. The document later, posted a millisecond after, is moved to the
  front as it should.
\<close>

theorem assignments_close_timestamps_unsorted:
  "map a_postedAt (map assignment_of_doc close_docs)
     = [Some 63835596800000001000, Some 63835596800000003000, Some 63835596800001001000]
   \<and> (63835596800000001000 :: timestamp) < 63835596800000003000
   \<and> postedAt_cmp (assignment_of_doc (posted ''older'' 63835596800000001000))
        (assignment_of_doc (posted ''newer'' 63835596800000003000)) = Double 0 0
   \<and> map a_id (assignments (assignments_onSnapshot close_docs filled_state))
     = [''later'', ''older'', ''newer'']"
  by (simp add: close_docs_def posted_def assignment_of_doc_def assignments_onSnapshot_def
      js_sort_def postedAt_cmp_def postedAt_or_0_def close_numbers binary64_def
      round_half_even_def Let_def bit_length.simps)

text \<open>The order in which the sample snapshot of C3 is delivered, from the theorem above.\<close>

theorem assignments_close_timestamps_unsorted_witness:
  "map a_id (assignments (assignments_onSnapshot close_docs filled_state))
     = [''later'', ''older'', ''newer'']"
  using assignments_close_timestamps_unsorted by (elim conjE)

section \<open>Profile store: the claims\<close>

text \<open>
  C4, as amended. When \<^verbatim>\<open>getDoc\<close> resolves and finds no profile document for the user
  id, and \<^verbatim>\<open>setDoc\<close> resolves, \<^verbatim>\<open>initializeProfile\<close> stores a default profile whose
  \<^verbatim>\<open>facultyId\<close> is the first 8 characters of the user id and makes it the local profile.
  When \<^verbatim>\<open>getDoc\<close> resolves and finds a document, the stored profile becomes the local
  profile as it is, and nothing else changes.
\<close>

theorem initializeProfile_bootstrap:
  "(store_profiles s uid = None \<longrightarrow>
      (\<exists>s'. initializeProfile uid now (Fulfilled u) (Fulfilled v) s = Inr s'
           \<and> facultyId (profile s') = Some (take 8 uid)
           \<and> store_profiles s' uid = Some (profile s')))
   \<and> (store_profiles s uid = Some stored \<longrightarrow>
        initializeProfile uid now (Fulfilled u) wrote s = Inr (s\<lparr>profile := stored\<rparr>))"
proof (intro conjI impI)
  assume "store_profiles s uid = None"
  then show "\<exists>s'. initializeProfile uid now (Fulfilled u) (Fulfilled v) s = Inr s'
           \<and> facultyId (profile s') = Some (take 8 uid)
           \<and> store_profiles s' uid = Some (profile s')"
    by (simp add: initializeProfile_def Let_def)
next
  assume "store_profiles s uid = Some stored"
  then show "initializeProfile uid now (Fulfilled u) wrote s = Inr (s\<lparr>profile := stored\<rparr>)"
    by (simp add: initializeProfile_def)
qed

text \<open>
  The amended C4 on the scenario of the specification: the identity abcdefgh12345 with no
  profile document gets the faculty id abcdefgh; and for an identity with a stored profile
  that profile becomes the local one.
\<close>

theorem initializeProfile_bootstrap_witness:
  "store_profiles (initial_state [] [] Map.empty) ''abcdefgh12345'' = None
   \<and> (\<exists>s'. initializeProfile ''abcdefgh12345'' 9 (Fulfilled ()) (Fulfilled ())
              (initial_state [] [] Map.empty) = Inr s'
           \<and> facultyId (profile s') = Some ''abcdefgh'')
   \<and> store_profiles (initial_state [] [] [''u2'' \<mapsto> profile filled_state]) ''u2''
       = Some (profile filled_state)
   \<and> initializeProfile ''u2'' 9 (Fulfilled ()) (Fulfilled ())
        (initial_state [] [] [''u2'' \<mapsto> profile filled_state])
       = Inr ((initial_state [] [] [''u2'' \<mapsto> profile filled_state])
                \<lparr>profile := profile filled_state\<rparr>)"
proof -
  have absent: "store_profiles (initial_state [] [] Map.empty) ''abcdefgh12345'' = None"
    by (simp add: initial_state_def)
  with initializeProfile_bootstrap
    [of "initial_state [] [] Map.empty" "''abcdefgh12345''" 9 "()" "()"]
  obtain s' where
    "initializeProfile ''abcdefgh12345'' 9 (Fulfilled ()) (Fulfilled ())
       (initial_state [] [] Map.empty) = Inr s'"
    and "facultyId (profile s') = Some (take 8 ''abcdefgh12345'')"
    by blast
  then have fresh: "\<exists>s'. initializeProfile ''abcdefgh12345'' 9 (Fulfilled ()) (Fulfilled ())
              (initial_state [] [] Map.empty) = Inr s'
           \<and> facultyId (profile s') = Some ''abcdefgh''"
    by simp
  have present:
    "store_profiles (initial_state [] [] [''u2'' \<mapsto> profile filled_state]) ''u2''
       = Some (profile filled_state)"
    by (simp add: initial_state_def)
  with initializeProfile_bootstrap
    [where s = "initial_state [] [] [''u2'' \<mapsto> profile filled_state]" and uid = "''u2''"
      and stored = "profile filled_state" and now = 9 and u = "()"
      and wrote = "Fulfilled ()"]
  have "initializeProfile ''u2'' 9 (Fulfilled ()) (Fulfilled ())
        (initial_state [] [] [''u2'' \<mapsto> profile filled_state])
       = Inr ((initial_state [] [] [''u2'' \<mapsto> profile filled_state])
                \<lparr>profile := profile filled_state\<rparr>)"
    by (rule conjunct2 [THEN mp])
  with absent fresh present show ?thesis by (intro conjI)
qed

text \<open>
  C4 as it is written fails: the identity has no profile document, \<^verbatim>\<open>setDoc\<close> rejects,
  and \<^verbatim>\<open>initializeProfile\<close> ends in that rejection without a profile.
\<close>

theorem initializeProfile_write_rejected_counterexample:
  "store_profiles (initial_state [] [] Map.empty) ''abcdefgh12345'' = None
   \<and> initializeProfile ''abcdefgh12345'' 9 (Fulfilled ()) (Rejected ''permission-denied'')
        (initial_state [] [] Map.empty) = Inl ''permission-denied''"
  by (simp add: initializeProfile_def initial_state_def)

text \<open>
  C8 fails on the code for the read and the write. After the component is mounted and a
  user is signed in, a rejected \<^verbatim>\<open>getDoc\<close> or \<^verbatim>\<open>setDoc\<close> rejects \<^verbatim>\<open>initializeProfile\<close>
  itself; the step writes nothing to the console, and the rejection is left uncaught. An
  error of the profile listener, in the same effect, is logged.
\<close>

theorem initializeProfile_rejection_unlogged:
  "initializeProfile ''abcdefgh12345'' 9 (Rejected ''unavailable'') (Fulfilled ())
     (run bootstrap_trace (initial_state [] [] Map.empty)) = Inl ''unavailable''
   \<and> initializeProfile ''abcdefgh12345'' 9 (Fulfilled ()) (Rejected ''permission-denied'')
     (run bootstrap_trace (initial_state [] [] Map.empty)) = Inl ''permission-denied''
   \<and> console (run (bootstrap_trace @
                 [InitializeProfileDone ''abcdefgh12345'' 9 (Rejected ''unavailable'')
                    (Fulfilled ())])
               (initial_state [] [] Map.empty)) = []
   \<and> uncaught (run (bootstrap_trace @
                 [InitializeProfileDone ''abcdefgh12345'' 9 (Rejected ''unavailable'')
                    (Fulfilled ())])
               (initial_state [] [] Map.empty)) = [''unavailable'']
   \<and> console (run (bootstrap_trace @ [ProfileListenError ''unavailable''])
               (initial_state [] [] Map.empty))
      = [ConsoleError ''Error listening to faculty profile:'' ''unavailable'']"
  by (simp add: trace_defs initializeProfile_def profile_onError_def)

text \<open>The rejected read of C8, taken from the theorem above.\<close>

theorem initializeProfile_rejection_unlogged_witness:
  "initializeProfile ''abcdefgh12345'' 9 (Rejected ''unavailable'') (Fulfilled ())
     (run bootstrap_trace (initial_state [] [] Map.empty)) = Inl ''unavailable''
   \<and> console (run (bootstrap_trace @
                 [InitializeProfileDone ''abcdefgh12345'' 9 (Rejected ''unavailable'')
                    (Fulfilled ())])
               (initial_state [] [] Map.empty)) = []"
  using initializeProfile_rejection_unlogged by (elim conjE) (intro conjI)

text \<open>
  C10. A profile snapshot of a document that does not exist leaves the whole state, and
  so the local profile, as it was, also as a step of the component; a snapshot that
  changes the local profile is one of an existing document.
\<close>

theorem profile_snapshot_missing_keeps_profile:
  "profile_onSnapshot None s = s
   \<and> profile (step (ProfileSnapshot None) s) = profile s
   \<and> (profile (profile_onSnapshot snap s) \<noteq> profile s \<longrightarrow> snap \<noteq> None)"
  by (cases snap) (simp_all add: profile_onSnapshot_def)

text \<open>C10 on the filled state: the missing document changes nothing, an existing one does.\<close>

theorem profile_snapshot_missing_keeps_profile_witness:
  "profile (step (ProfileSnapshot None) filled_state) = profile filled_state
   \<and> profile (profile_onSnapshot (Some initial_profile) filled_state) \<noteq> profile filled_state"
  using profile_snapshot_missing_keeps_profile [of filled_state "Some initial_profile"]
  by (simp add: profile_onSnapshot_def filled_defs)

section \<open>The transition system: the claims\<close>

text \<open>
  C6, as amended. In every state the component reaches from its initial state, the content
  listeners are open only when \<^verbatim>\<open>db\<close> is set and the identity is ready, and the course
  they filter on is non-empty and is either CS101, the course of the profile value the
  component starts with, or the course of a profile value that the profile store has
  delivered. As long as the profile store has delivered nothing (a rejected
  \<^verbatim>\<open>initializeProfile\<close> and a snapshot of a missing document deliver nothing), the
  listeners can be open, and then on CS101.
\<close>

theorem content_sub_from_placeholder_or_delivery:
  "content_sub (run es (initial_state sa ss sp)) = Some c \<longrightarrow>
     db (run es (initial_state sa ss sp))
     \<and> isAuthReady (run es (initial_state sa ss sp))
     \<and> c \<noteq> []
     \<and> (c = ''CS101'' \<or> (\<exists>p\<in>set (deliveries es (initial_state sa ss sp)). course p = Some c))
     \<and> (deliveries es (initial_state sa ss sp) = [] \<longrightarrow> c = ''CS101'')"
proof
  let ?s0 = "initial_state sa ss sp"
  assume open_sub: "content_sub (run es ?s0) = Some c"
  have closed: "content_sub ?s0 = None"
    by (simp add: initial_state_def)
  have placeholder: "course (profile ?s0) = Some c \<longleftrightarrow> c = ''CS101''"
    by (auto simp add: initial_state_def initial_profile_def)
  from run_content_sub [OF open_sub closed] placeholder
  have main: "db (run es ?s0) \<and> isAuthReady (run es ?s0) \<and> c \<noteq> []
     \<and> (c = ''CS101'' \<or> (\<exists>p\<in>set (deliveries es ?s0). course p = Some c))"
    by simp
  then have "deliveries es ?s0 = [] \<longrightarrow> c = ''CS101''"
    by auto
  with main show "db (run es ?s0) \<and> isAuthReady (run es ?s0) \<and> c \<noteq> []
     \<and> (c = ''CS101'' \<or> (\<exists>p\<in>set (deliveries es ?s0). course p = Some c))
     \<and> (deliveries es ?s0 = [] \<longrightarrow> c = ''CS101'')"
    by (intro conjI) simp_all
qed

text \<open>
  The amended C6 on two runs. In the first the profile is bootstrapped and then changed to
  the course BIO205: until the next effect pass the listeners still filter on CS101, after
  it on BIO205. In the second \<^verbatim>\<open>initializeProfile\<close> is rejected and the snapshot is of a
  missing document: nothing is delivered, and the listeners filter on CS101.
\<close>

theorem content_sub_from_placeholder_or_delivery_witness:
  "content_sub (run (bootstrap_trace @
       [InitializeProfileDone ''abcdefgh12345'' 9 (Fulfilled ()) (Fulfilled ()), EffectsPass,
        ProfileSnapshot (Some (initial_profile\<lparr>course := Some ''BIO205''\<rparr>))])
      (initial_state [] [] Map.empty)) = Some ''CS101''
   \<and> content_sub (run (bootstrap_trace @
       [InitializeProfileDone ''abcdefgh12345'' 9 (Fulfilled ()) (Fulfilled ()), EffectsPass,
        ProfileSnapshot (Some (initial_profile\<lparr>course := Some ''BIO205''\<rparr>)), EffectsPass])
      (initial_state [] [] Map.empty)) = Some ''BIO205''
   \<and> db (run (bootstrap_trace @
       [InitializeProfileDone ''abcdefgh12345'' 9 (Fulfilled ()) (Fulfilled ()), EffectsPass,
        ProfileSnapshot (Some (initial_profile\<lparr>course := Some ''BIO205''\<rparr>)), EffectsPass])
      (initial_state [] [] Map.empty))
   \<and> map course (deliveries (bootstrap_trace @
       [InitializeProfileDone ''abcdefgh12345'' 9 (Fulfilled ()) (Fulfilled ()), EffectsPass,
        ProfileSnapshot (Some (initial_profile\<lparr>course := Some ''BIO205''\<rparr>)), EffectsPass])
      (initial_state [] [] Map.empty)) = [Some ''CS101'', Some ''BIO205'']
   \<and> deliveries (bootstrap_trace @
       [InitializeProfileDone ''abcdefgh12345'' 9 (Rejected ''unavailable'') (Fulfilled ()),
        ProfileSnapshot None, EffectsPass])
      (initial_state [] [] Map.empty) = []
   \<and> content_sub (run (bootstrap_trace @
       [InitializeProfileDone ''abcdefgh12345'' 9 (Rejected ''unavailable'') (Fulfilled ()),
        ProfileSnapshot None, EffectsPass])
      (initial_state [] [] Map.empty)) = Some ''CS101''
   \<and> isAuthReady (run (bootstrap_trace @
       [InitializeProfileDone ''abcdefgh12345'' 9 (Rejected ''unavailable'') (Fulfilled ()),
        ProfileSnapshot None, EffectsPass])
      (initial_state [] [] Map.empty))"
proof -
  let ?s0 = "initial_state [] [] Map.empty"
  let ?changed = "bootstrap_trace @
       [InitializeProfileDone ''abcdefgh12345'' 9 (Fulfilled ()) (Fulfilled ()), EffectsPass,
        ProfileSnapshot (Some (initial_profile\<lparr>course := Some ''BIO205''\<rparr>)), EffectsPass]"
  let ?quiet = "bootstrap_trace @
       [InitializeProfileDone ''abcdefgh12345'' 9 (Rejected ''unavailable'') (Fulfilled ()),
        ProfileSnapshot None, EffectsPass]"
  have stale: "content_sub (run (bootstrap_trace @
       [InitializeProfileDone ''abcdefgh12345'' 9 (Fulfilled ()) (Fulfilled ()), EffectsPass,
        ProfileSnapshot (Some (initial_profile\<lparr>course := Some ''BIO205''\<rparr>))]) ?s0)
      = Some ''CS101''"
    by (simp add: trace_defs initializeProfile_def profile_onSnapshot_def)
  have moved: "content_sub (run ?changed ?s0) = Some ''BIO205''"
    by (simp add: trace_defs initializeProfile_def profile_onSnapshot_def)
  have delivered: "map course (deliveries ?changed ?s0) = [Some ''CS101'', Some ''BIO205'']"
    by (simp add: trace_defs initializeProfile_def profile_onSnapshot_def)
  have silent: "deliveries ?quiet ?s0 = []"
    by (simp add: trace_defs initializeProfile_def profile_onSnapshot_def)
  have placeholder: "content_sub (run ?quiet ?s0) = Some ''CS101''"
    by (simp add: trace_defs initializeProfile_def profile_onSnapshot_def)
  from content_sub_from_placeholder_or_delivery [of ?changed "[]" "[]" Map.empty "''BIO205''"]
    moved
  have set_up: "db (run ?changed ?s0)"
    by blast
  from content_sub_from_placeholder_or_delivery [of ?quiet "[]" "[]" Map.empty "''CS101''"]
    placeholder
  have ready: "isAuthReady (run ?quiet ?s0)"
    by blast
  from stale moved set_up delivered silent placeholder ready show ?thesis
    by (intro conjI)
qed

text \<open>
  C6 as it is written fails: after the component is mounted, the identity is ready and
  the effects have run, the content listeners are open on CS101, and the profile store
  has delivered nothing; no event of the profile store has happened at all.
\<close>

theorem content_sub_before_profile_counterexample:
  "content_sub (run bootstrap_trace (initial_state [] [] Map.empty)) = Some ''CS101''
   \<and> deliveries bootstrap_trace (initial_state [] [] Map.empty) = []
   \<and> \<not> list_ex profile_event bootstrap_trace"
  by (simp add: trace_defs)

text \<open>
  C7, as amended. \<^verbatim>\<open>userId\<close> is written by the auth-state listener only: every other
  step leaves it as it was, and every notification of the registered listener overwrites
  it, with the uid of the user or, when there is none, with a new local id.
\<close>

theorem userId_written_only_by_auth_listener:
  "(\<not> auth_event e \<longrightarrow> userId (step e s) = userId s)
   \<and> (auth s \<longrightarrow> userId (step (AuthStateChanged (Some uid) uuid) s) = Some uid
              \<and> userId (step (AuthStateChanged None uuid) s) = Some uuid)"
proof (intro conjI impI)
  assume "\<not> auth_event e"
  then show "userId (step e s) = userId s"
    by (rule step_userId)
next
  assume "auth s"
  then show "userId (step (AuthStateChanged (Some uid) uuid) s) = Some uid"
    by (simp add: authStateChanged_def)
next
  assume "auth s"
  then show "userId (step (AuthStateChanged None uuid) s) = Some uuid"
    by (simp add: authStateChanged_def)
qed

text \<open>
  The amended C7 after the bootstrap: posting an assignment keeps the user id, a
  notification without a user replaces it.
\<close>

theorem userId_written_only_by_auth_listener_witness:
  "\<not> auth_event (PostAssignment (\<lambda>d. Inr 7) 9 (Fulfilled ''doc1''))
   \<and> auth (run bootstrap_trace (initial_state [] [] Map.empty))
   \<and> userId (run bootstrap_trace (initial_state [] [] Map.empty)) = Some ''abcdefgh12345''
   \<and> userId (step (PostAssignment (\<lambda>d. Inr 7) 9 (Fulfilled ''doc1''))
        (run bootstrap_trace (initial_state [] [] Map.empty))) = Some ''abcdefgh12345''
   \<and> userId (step (AuthStateChanged None ''local-uuid'')
        (run bootstrap_trace (initial_state [] [] Map.empty))) = Some ''local-uuid''"
proof -
  let ?s = "run bootstrap_trace (initial_state [] [] Map.empty)"
  have a: "auth ?s" and u: "userId ?s = Some ''abcdefgh12345''"
    by (simp_all add: trace_defs)
  have quiet: "\<not> auth_event (PostAssignment (\<lambda>d. Inr 7) 9 (Fulfilled ''doc1''))"
    by simp
  from userId_written_only_by_auth_listener
    [of "PostAssignment (\<lambda>d. Inr 7) 9 (Fulfilled ''doc1'')" ?s "''uid''" "''local-uuid''"]
    a u quiet
  have "userId (step (PostAssignment (\<lambda>d. Inr 7) 9 (Fulfilled ''doc1'')) ?s)
          = Some ''abcdefgh12345''"
    and "userId (step (AuthStateChanged None ''local-uuid'') ?s) = Some ''local-uuid''"
    by simp_all
  with a u quiet show ?thesis by (intro conjI)
qed

text \<open>
  C7 as it is written fails: the listener is first notified without a user and records a
  local id, then sign-in completes, the listener is notified with the user, and the
  recorded id is replaced.
\<close>

theorem userId_overwritten_counterexample:
  "userId (run [Mount InitOk, AuthStateChanged None ''local-uuid'']
             (initial_state [] [] Map.empty)) = Some ''local-uuid''
   \<and> userId (step (AuthStateChanged (Some ''uid-1'') ''other-uuid'')
        (run [Mount InitOk, AuthStateChanged None ''local-uuid'']
             (initial_state [] [] Map.empty))) = Some ''uid-1''"
  by (simp add: initial_state_def mount_def authStateChanged_def)

end
